theory Spec2Isabelle
  imports Main
begin

section \<open>Values and exceptions of the Python program\<close>

text \<open>
  The dashboard (\<^verbatim>\<open>src/app.py\<close>) works on the document that \<^verbatim>\<open>response.json()\<close>
  returns: \<^verbatim>\<open>None\<close>, booleans, unbounded integers, floats, strings, lists and dicts
  with string keys. Strings are byte lists holding the UTF-8 encoding of the text. A float
  is named by its \<^verbatim>\<open>repr\<close> (\<^verbatim>\<open>21.5\<close> is \<open>PFloat ''21.5''\<close>), which determines it; the
  program only tests floats for truth and prints them. A dict is an association list, looked
  up with \<open>map_of\<close>.
\<close>

datatype pyval =
    PNone
  | PBool bool
  | PInt int
  | PFloat string
  | PStr string
  | PList "pyval list"
  | PDict "(string \<times> pyval) list"

text \<open>
  The exceptions that the modelled code can meet. The first four are subclasses of
  \<^verbatim>\<open>requests.exceptions.RequestException\<close>; \<open>RequestsJSONDecodeError\<close> is
  \<^verbatim>\<open>requests.exceptions.JSONDecodeError\<close>, which \<^verbatim>\<open>response.json()\<close> raises since requests
  2.27 and which derives from \<^verbatim>\<open>RequestException\<close> through \<^verbatim>\<open>InvalidJSONError\<close>. Older
  versions of requests raise a plain \<^verbatim>\<open>ValueError\<close> (\<^verbatim>\<open>json.JSONDecodeError\<close>) there.
\<close>

datatype py_exc =
    ConnectionError
  | Timeout
  | HTTPError nat
  | RequestsJSONDecodeError
  | ValueError
  | TypeError
  | AttributeError
  | KeyError

fun is_request_exception :: "py_exc \<Rightarrow> bool" where
  "is_request_exception ConnectionError = True"
| "is_request_exception Timeout = True"
| "is_request_exception (HTTPError code) = True"
| "is_request_exception RequestsJSONDecodeError = True"
| "is_request_exception ValueError = False"
| "is_request_exception TypeError = False"
| "is_request_exception AttributeError = False"
| "is_request_exception KeyError = False"

text \<open>Python's truth test, as \<^verbatim>\<open>if x\<close> and \<^verbatim>\<open>not x\<close> apply it.\<close>

fun truthy :: "pyval \<Rightarrow> bool" where
  "truthy PNone = False"
| "truthy (PBool b) = b"
| "truthy (PInt i) = (i \<noteq> 0)"
| "truthy (PFloat r) = (r \<noteq> ''0.0'' \<and> r \<noteq> ''-0.0'')"
| "truthy (PStr s) = (s \<noteq> [])"
| "truthy (PList xs) = (xs \<noteq> [])"
| "truthy (PDict kvs) = (kvs \<noteq> [])"

text \<open>
  \<^verbatim>\<open>d.get(key)\<close> and \<^verbatim>\<open>d.get(key, default)\<close>: only a dict has the method; on any other value
  the attribute lookup raises \<^verbatim>\<open>AttributeError\<close>. A missing key gives the default, which
  is \<^verbatim>\<open>None\<close> when none is passed.
\<close>

definition py_get_default :: "pyval \<Rightarrow> string \<Rightarrow> pyval \<Rightarrow> py_exc + pyval" where
  "py_get_default d key dflt =
     (case d of
        PDict kvs \<Rightarrow> (case map_of kvs key of Some v \<Rightarrow> Inr v | None \<Rightarrow> Inr dflt)
      | _ \<Rightarrow> Inl AttributeError)"

definition py_get :: "pyval \<Rightarrow> string \<Rightarrow> py_exc + pyval" where
  "py_get d key = py_get_default d key PNone"

section \<open>Timestamps\<close>

text \<open>
  A \<^verbatim>\<open>datetime\<close> object: the calendar fields and the UTC offset in microseconds
  (\<open>None\<close> for a naive datetime). Python keeps the fields of such an object in range (the
  month from 1 to 12, the hour below 24, and so on); \<open>new_datetime\<close> below is its
  constructor with these checks.
\<close>

record datetime =
  year :: nat
  month :: nat
  day :: nat
  hour :: nat
  minute :: nat
  second :: nat
  microsecond :: nat
  utcoffset :: "int option"

text \<open>\<^verbatim>\<open>s.replace(old, new)\<close> for a one-character \<^verbatim>\<open>old\<close>: every occurrence is replaced.\<close>

definition str_replace :: "char \<Rightarrow> string \<Rightarrow> string \<Rightarrow> string" where
  "str_replace old new s = concat (map (\<lambda>c. if c = old then new else [c]) s)"

subsection \<open>Decimal text of numbers\<close>

definition digit_char :: "nat \<Rightarrow> char" where
  "digit_char d = ''0123456789'' ! d"

fun str_nat :: "nat \<Rightarrow> string" where
  "str_nat n = (if n < 10 then [digit_char n] else str_nat (n div 10) @ [digit_char (n mod 10)])"

declare str_nat.simps [simp del]

definition str_int :: "int \<Rightarrow> string" where
  "str_int i = (if i < 0 then CHR ''-'' # str_nat (nat (- i)) else str_nat (nat i))"

definition zero_pad :: "nat \<Rightarrow> nat \<Rightarrow> string" where
  "zero_pad width n = replicate (width - length (str_nat n)) (CHR ''0'') @ str_nat n"

subsection \<open>\<^verbatim>\<open>datetime.strftime\<close>\<close>

text \<open>
  The directives of \<^verbatim>\<open>strftime\<close> that the program uses, in the C locale (the program never
  calls \<^verbatim>\<open>setlocale\<close>): \<^verbatim>\<open>%I\<close> is the hour on the 12-hour clock, \<^verbatim>\<open>%M\<close> the minute, \<^verbatim>\<open>%p\<close>
  AM or PM, \<^verbatim>\<open>%B\<close> the month's full name, \<^verbatim>\<open>%d\<close> the day of the month (all zero-padded to
  two digits) and \<^verbatim>\<open>%Y\<close> the year in decimal digits, as the C library of Linux prints it: a
  year below 1000 is not padded there, while other platforms pad it to four digits. Any
  other character of the format is copied.
\<close>

definition month_names :: "string list" where
  "month_names = [''January'', ''February'', ''March'', ''April'', ''May'', ''June'',
     ''July'', ''August'', ''September'', ''October'', ''November'', ''December'']"

definition hour12 :: "nat \<Rightarrow> nat" where
  "hour12 h = (if h mod 12 = 0 then 12 else h mod 12)"

definition directive :: "char \<Rightarrow> datetime \<Rightarrow> string" where
  "directive d dt =
     (if d = CHR ''I'' then zero_pad 2 (hour12 (hour dt))
      else if d = CHR ''M'' then zero_pad 2 (minute dt)
      else if d = CHR ''p'' then (if hour dt < 12 then ''AM'' else ''PM'')
      else if d = CHR ''B'' then month_names ! (month dt - 1)
      else if d = CHR ''d'' then zero_pad 2 (day dt)
      else if d = CHR ''Y'' then str_nat (year dt)
      else if d = CHR ''%'' then ''%''
      else [CHR ''%'', d])"

fun strftime :: "string \<Rightarrow> datetime \<Rightarrow> string" where
  "strftime [] dt = []"
| "strftime [c] dt = [c]"
| "strftime (c # d # fmt) dt =
     (if c = CHR ''%'' then directive d dt @ strftime fmt dt
      else c # strftime (d # fmt) dt)"

subsection \<open>The two formatters\<close>

text \<open>
  \<^verbatim>\<open>format_time\<close> and \<^verbatim>\<open>format_date\<close> (lines 69 to 87). \<^verbatim>\<open>datetime.fromisoformat\<close> is a
  parameter: \<open>None\<close> stands for its \<^verbatim>\<open>ValueError\<close>, the only exception the functions catch.
  The strings it accepts differ between versions of Python. A true value that is not a
  string has no \<^verbatim>\<open>replace\<close> method: the call raises \<^verbatim>\<open>AttributeError\<close>, which is not caught.
\<close>

type_synonym iso_parser = "string \<Rightarrow> datetime option"

definition format_time :: "iso_parser \<Rightarrow> pyval \<Rightarrow> py_exc + string" where
  "format_time fromisoformat iso_time =
     (if \<not> truthy iso_time then Inr ''N/A''
      else case iso_time of
        PStr s \<Rightarrow>
          (case fromisoformat (str_replace (CHR ''Z'') ''+00:00'' s) of
             Some dt_object \<Rightarrow> Inr (strftime ''%I:%M %p'' dt_object)
           | None \<Rightarrow> Inr ''Time N/A'')
      | _ \<Rightarrow> Inl AttributeError)"

definition format_date :: "iso_parser \<Rightarrow> pyval \<Rightarrow> py_exc + string" where
  "format_date fromisoformat iso_time =
     (if \<not> truthy iso_time then Inr ''N/A''
      else case iso_time of
        PStr s \<Rightarrow>
          (case fromisoformat (str_replace (CHR ''Z'') ''+00:00'' s) of
             Some dt_object \<Rightarrow> Inr (strftime ''%B %d, %Y'' dt_object)
           | None \<Rightarrow> Inr ''Date N/A'')
      | _ \<Rightarrow> Inl AttributeError)"

subsection \<open>The documented grammar of \<^verbatim>\<open>datetime.fromisoformat\<close>\<close>

text \<open>
  A parser for the strings that the documentation of \<^verbatim>\<open>datetime.fromisoformat\<close> has
  promised since Python 3.7: \<^verbatim>\<open>YYYY-MM-DD[*HH[:MM[:SS[.fff[fff]]]][+HH:MM[:SS[.ffffff]]]]\<close>,
  where \<^verbatim>\<open>*\<close> is any single character (one to four bytes of UTF-8, told by the first
  byte as CPython does), followed by the range checks of the \<^verbatim>\<open>datetime\<close> constructor.
  Python 3.11 and later accept further forms of ISO 8601 as well (dates without hyphens,
  week dates) and read the strings of this grammar in the same way; in every version a
  string that is accepted begins with the four digits of the year. It is the instance at
  which the formatters are evaluated; the general properties below hold for every parser.
\<close>

definition digit_val :: "char \<Rightarrow> nat option" where
  "digit_val c =
     (let n = (of_char c :: nat) in if 48 \<le> n \<and> n \<le> 57 then Some (n - 48) else None)"

fun parse_digits_acc :: "nat \<Rightarrow> string \<Rightarrow> nat option" where
  "parse_digits_acc acc [] = Some acc"
| "parse_digits_acc acc (c # cs) =
     (case digit_val c of None \<Rightarrow> None | Some d \<Rightarrow> parse_digits_acc (10 * acc + d) cs)"

definition parse_digits :: "string \<Rightarrow> nat option" where
  "parse_digits s = (if s = [] then None else parse_digits_acc 0 s)"

definition parse_isoformat_date :: "string \<Rightarrow> (nat \<times> nat \<times> nat) option" where
  "parse_isoformat_date dtstr =
     (if length dtstr = 10 \<and> dtstr ! 4 = CHR ''-'' \<and> dtstr ! 7 = CHR ''-'' then
        (case parse_digits (take 4 dtstr) of
           None \<Rightarrow> None
         | Some y \<Rightarrow>
             (case parse_digits (take 2 (drop 5 dtstr)) of
                None \<Rightarrow> None
              | Some m \<Rightarrow>
                  (case parse_digits (drop 8 dtstr) of
                     None \<Rightarrow> None
                   | Some d \<Rightarrow> Some (y, m, d))))
      else None)"

text \<open>
  One field of \<^verbatim>\<open>HH[:MM[:SS[.fff[fff]]]]\<close>: when the string is long enough to hold it, the
  separator must stand before it and the digits are read; otherwise the field is 0.
\<close>

definition time_field :: "string \<Rightarrow> bool \<Rightarrow> nat \<Rightarrow> char \<Rightarrow> string \<Rightarrow> nat option" where
  "time_field tstr present sep_pos sep digits =
     (if present then (if tstr ! sep_pos = sep then parse_digits digits else None)
      else Some 0)"

definition parse_hh_mm_ss_ff :: "string \<Rightarrow> (nat \<times> nat \<times> nat \<times> nat) option" where
  "parse_hh_mm_ss_ff tstr =
     (let n = length tstr in
      if n = 2 \<or> n = 5 \<or> n = 8 \<or> n = 12 \<or> n = 15 then
        (case parse_digits (take 2 tstr) of
           None \<Rightarrow> None
         | Some h \<Rightarrow>
             (case time_field tstr (5 \<le> n) 2 (CHR '':'') (take 2 (drop 3 tstr)) of
                None \<Rightarrow> None
              | Some m \<Rightarrow>
                  (case time_field tstr (8 \<le> n) 5 (CHR '':'') (take 2 (drop 6 tstr)) of
                     None \<Rightarrow> None
                   | Some s \<Rightarrow>
                       (case time_field tstr (12 \<le> n) 8 (CHR ''.'') (drop 9 tstr) of
                          None \<Rightarrow> None
                        | Some f \<Rightarrow> Some (h, m, s, if n = 12 then f * 1000 else f)))))
      else None)"

definition is_sign :: "char \<Rightarrow> bool" where
  "is_sign c = (c = CHR ''+'' \<or> c = CHR ''-'')"

definition parse_isoformat_time ::
  "string \<Rightarrow> (nat \<times> nat \<times> nat \<times> nat \<times> int option) option" where
  "parse_isoformat_time tstr =
     (case parse_hh_mm_ss_ff (takeWhile (\<lambda>c. \<not> is_sign c) tstr) of
        None \<Rightarrow> None
      | Some (h, m, s, f) \<Rightarrow>
          (case dropWhile (\<lambda>c. \<not> is_sign c) tstr of
             [] \<Rightarrow> Some (h, m, s, f, None)
           | sign # tzstr \<Rightarrow>
               (if length tzstr = 5 \<or> length tzstr = 8 \<or> length tzstr = 15 then
                  (case parse_hh_mm_ss_ff tzstr of
                     None \<Rightarrow> None
                   | Some (th, tm, ts, tf) \<Rightarrow>
                       (let off = ((int th * 60 + int tm) * 60 + int ts) * 1000000 + int tf
                        in if off < 86400000000
                           then Some (h, m, s, f, Some (if sign = CHR ''-'' then - off else off))
                           else None))
                else None)))"

definition is_leap :: "nat \<Rightarrow> bool" where
  "is_leap y = (y mod 4 = 0 \<and> (y mod 400 = 0 \<or> y mod 100 \<noteq> 0))"

definition days_in_month :: "nat \<Rightarrow> nat \<Rightarrow> nat" where
  "days_in_month y m =
     (if m = 2 then (if is_leap y then 29 else 28)
      else if m = 4 \<or> m = 6 \<or> m = 9 \<or> m = 11 then 30
      else 31)"

definition new_datetime ::
  "nat \<Rightarrow> nat \<Rightarrow> nat \<Rightarrow> nat \<Rightarrow> nat \<Rightarrow> nat \<Rightarrow> nat \<Rightarrow> int option \<Rightarrow> datetime option" where
  "new_datetime y mo d h mi s us tz =
     (if 1 \<le> y \<and> y \<le> 9999 \<and> 1 \<le> mo \<and> mo \<le> 12 \<and> 1 \<le> d \<and> d \<le> days_in_month y mo
         \<and> h < 24 \<and> mi < 60 \<and> s < 60 \<and> us < 1000000
      then Some \<lparr>year = y, month = mo, day = d, hour = h, minute = mi, second = s,
                 microsecond = us, utcoffset = tz\<rparr>
      else None)"

text \<open>The number of bytes of the character that begins with the byte \<open>c\<close>.\<close>

definition separator_length :: "char \<Rightarrow> nat" where
  "separator_length c =
     (let n = (of_char c :: nat)
      in if n < 128 then 1 else if 240 \<le> n then 4 else if 224 \<le> n then 3 else 2)"

definition fromisoformat_doc :: iso_parser where
  "fromisoformat_doc date_string =
     (case parse_isoformat_date (take 10 date_string) of
        None \<Rightarrow> None
      | Some (y, mo, d) \<Rightarrow>
          (case drop 10 date_string of
             [] \<Rightarrow> new_datetime y mo d 0 0 0 0 None
           | sep # rest \<Rightarrow>
               (case parse_isoformat_time (drop (separator_length sep - 1) rest) of
                  None \<Rightarrow> None
                | Some (h, mi, s, us, tz) \<Rightarrow> new_datetime y mo d h mi s us tz)))"

text \<open>
  A property of strings used below to say which ones are rejected: the string begins with
  a year, that is, with four decimal digits.
\<close>

definition is_digit :: "char \<Rightarrow> bool" where
  "is_digit c = (digit_val c \<noteq> None)"

definition starts_with_year :: "string \<Rightarrow> bool" where
  "starts_with_year s = (4 \<le> length s \<and> list_all is_digit (take 4 s))"

section \<open>The weather metrics\<close>

text \<open>
  The text an f-string puts for \<^verbatim>\<open>{value}\<close>, which is \<^verbatim>\<open>str(value)\<close>: the decimal digits
  of an integer, the \<^verbatim>\<open>repr\<close> of a float, a string as it is. The text of a list or a dict
  (CPython's \<^verbatim>\<open>repr\<close> of containers, with its quoting and escaping of strings) is not
  modelled; it is the parameter \<open>container_repr\<close>.
\<close>

definition fstr :: "(pyval \<Rightarrow> string) \<Rightarrow> pyval \<Rightarrow> string" where
  "fstr container_repr v =
     (case v of
        PNone \<Rightarrow> ''None''
      | PBool b \<Rightarrow> (if b then ''True'' else ''False'')
      | PInt i \<Rightarrow> str_int i
      | PFloat r \<Rightarrow> r
      | PStr s \<Rightarrow> s
      | PList xs \<Rightarrow> container_repr v
      | PDict kvs \<Rightarrow> container_repr v)"

text \<open>
  Lines 178 and 184 are the same conditional expression with two unit suffixes,
  \<^verbatim>\<open>f"{value}<suffix>" if value is not None else '--'\<close>. The degree sign of the first suffix
  is the two bytes C2 B0 in UTF-8.
\<close>

definition unit_display :: "(pyval \<Rightarrow> string) \<Rightarrow> string \<Rightarrow> pyval \<Rightarrow> string" where
  "unit_display container_repr suffix v =
     (if v \<noteq> PNone then fstr container_repr v @ suffix else ''--'')"

definition deg_C :: string where
  "deg_C = [CHR 0xC2, CHR 0xB0, CHR ''C'']"

definition km_h :: string where
  "km_h = '' km/h''"

text \<open>
  The three columns of the weather section (lines 175 to 189), each from the \<^verbatim>\<open>weather\<close>
  value of the payload.
\<close>

definition temp_display :: "(pyval \<Rightarrow> string) \<Rightarrow> pyval \<Rightarrow> py_exc + string" where
  "temp_display container_repr weather =
     (case py_get weather ''temperature'' of
        Inl e \<Rightarrow> Inl e
      | Inr temp_value \<Rightarrow> Inr (unit_display container_repr deg_C temp_value))"

definition wind_display :: "(pyval \<Rightarrow> string) \<Rightarrow> pyval \<Rightarrow> py_exc + string" where
  "wind_display container_repr weather =
     (case py_get weather ''windspeed'' of
        Inl e \<Rightarrow> Inl e
      | Inr wind_value \<Rightarrow> Inr (unit_display container_repr km_h wind_value))"

definition local_time :: "iso_parser \<Rightarrow> pyval \<Rightarrow> py_exc + string" where
  "local_time fromisoformat weather =
     (case py_get weather ''time'' of
        Inl e \<Rightarrow> Inl e
      | Inr t \<Rightarrow> format_time fromisoformat t)"

text \<open>The caption of line 162, \<^verbatim>\<open>f"**Date:** {format_date(apod.get('date'))}"\<close>.\<close>

definition date_caption :: "iso_parser \<Rightarrow> pyval \<Rightarrow> py_exc + string" where
  "date_caption fromisoformat apod =
     (case py_get apod ''date'' of
        Inl e \<Rightarrow> Inl e
      | Inr d \<Rightarrow>
          (case format_date fromisoformat d of
             Inl e \<Rightarrow> Inl e
           | Inr text \<Rightarrow> Inr (''**Date:** '' @ text)))"

section \<open>The media of the day\<close>

text \<open>
  Lines 146 to 159. The chain \<^verbatim>\<open>if media_type == 'video' ... elif media_type == 'image' ...
  else ...\<close> sorts the raw media type into three kinds; \<^verbatim>\<open>==\<close> between a value and a string
  literal holds only for that string. The chain is reached only when the media URL is true;
  otherwise a warning about the URL is shown.
\<close>

datatype media_kind = Video | Image | Unrecognized

definition classify_media :: "pyval \<Rightarrow> media_kind" where
  "classify_media media_type =
     (if media_type = PStr ''video'' then Video
      else if media_type = PStr ''image'' then Image
      else Unrecognized)"

datatype widget =
    StVideo pyval
  | StImage pyval pyval
  | StWarning string

definition show_media :: "pyval \<Rightarrow> py_exc + widget" where
  "show_media apod =
     (case py_get apod ''media_type'' of
        Inl e \<Rightarrow> Inl e
      | Inr media_type \<Rightarrow>
          (case py_get apod ''url'' of
             Inl e \<Rightarrow> Inl e
           | Inr media_url \<Rightarrow>
               (if truthy media_url then
                  (case classify_media media_type of
                     Video \<Rightarrow> Inr (StVideo media_url)
                   | Image \<Rightarrow>
                       (case py_get apod ''title'' of
                          Inl e \<Rightarrow> Inl e
                        | Inr caption \<Rightarrow> Inr (StImage media_url caption))
                   | Unrecognized \<Rightarrow> Inr (StWarning ''Unknown media type.''))
                else Inr (StWarning ''APOD media URL not available.''))))"

section \<open>Validation of the payload\<close>

text \<open>
  How a stage of the render pass ends: it hands on a value, it shows one of the program's
  error messages with \<^verbatim>\<open>st.error\<close> and ends the pass (\<^verbatim>\<open>st.stop()\<close> in \<^verbatim>\<open>fetch_data\<close>,
  \<^verbatim>\<open>return\<close> in \<^verbatim>\<open>main\<close>), or an exception leaves it uncaught.
\<close>

datatype st_error =
    ConnectionErrorMsg py_exc
  | UnexpectedErrorMsg py_exc
  | DataStructureInvalidMsg

datatype 'a outcome =
    Returned 'a
  | Halted st_error
  | Raised py_exc

text \<open>
  \<^verbatim>\<open>key in data\<close> for a string \<^verbatim>\<open>key\<close>: a key of a dict, an element of a list, a substring
  of a string; \<^verbatim>\<open>TypeError\<close> on a value that is not a container.
\<close>

fun py_in_str :: "string \<Rightarrow> string \<Rightarrow> bool" where
  "py_in_str sub [] = (sub = [])"
| "py_in_str sub (c # cs) = (take (length sub) (c # cs) = sub \<or> py_in_str sub cs)"

definition py_contains :: "string \<Rightarrow> pyval \<Rightarrow> py_exc + bool" where
  "py_contains key data =
     (case data of
        PDict kvs \<Rightarrow> Inr (key \<in> set (map fst kvs))
      | PList xs \<Rightarrow> Inr (PStr key \<in> set xs)
      | PStr s \<Rightarrow> Inr (py_in_str key s)
      | _ \<Rightarrow> Inl TypeError)"

text \<open>\<^verbatim>\<open>data[key]\<close> for a string \<^verbatim>\<open>key\<close>: only a dict can be indexed by a string.\<close>

definition py_getitem :: "pyval \<Rightarrow> string \<Rightarrow> py_exc + pyval" where
  "py_getitem data key =
     (case data of
        PDict kvs \<Rightarrow> (case map_of kvs key of Some v \<Rightarrow> Inr v | None \<Rightarrow> Inl KeyError)
      | _ \<Rightarrow> Inl TypeError)"

text \<open>
  Lines 129 to 134 of \<^verbatim>\<open>main\<close>: the test
  \<^verbatim>\<open>not data or 'apod' not in data or 'weather' not in data\<close>, evaluated from left to right,
  then the two subscriptions. The result is the pair \<^verbatim>\<open>(apod, weather)\<close>.
\<close>

definition validate_structure :: "pyval \<Rightarrow> (pyval \<times> pyval) outcome" where
  "validate_structure data =
     (if \<not> truthy data then Halted DataStructureInvalidMsg
      else case py_contains ''apod'' data of
        Inl e \<Rightarrow> Raised e
      | Inr has_apod \<Rightarrow>
          (if \<not> has_apod then Halted DataStructureInvalidMsg
           else case py_contains ''weather'' data of
             Inl e \<Rightarrow> Raised e
           | Inr has_weather \<Rightarrow>
               (if \<not> has_weather then Halted DataStructureInvalidMsg
                else case py_getitem data ''apod'' of
                  Inl e \<Rightarrow> Raised e
                | Inr apod \<Rightarrow>
                    (case py_getitem data ''weather'' of
                       Inl e \<Rightarrow> Raised e
                     | Inr weather \<Rightarrow> Returned (apod, weather)))))"

section \<open>Fetching\<close>

text \<open>
  A response, as far as \<^verbatim>\<open>fetch_data\<close> looks at it: its status code, and what
  \<^verbatim>\<open>response.json()\<close> does, which is to return the parsed body or to raise.

  One call of \<^verbatim>\<open>requests.get(url, timeout=t)\<close> sends a GET request to the URL and, as long
  as the server answers with a redirect, one more GET request to each address it is sent
  on to (requests follows at most 30 of them); the call ends with the last response or
  with an exception. The network holds, for each call to come, that result (\<open>replies\<close>) and
  the addresses of the redirects followed before it (\<open>redirects\<close>), and it records every GET
  request put on the wire, with its URL and its timeout in seconds (\<open>sent\<close>). With no reply
  left, the connection fails.
\<close>

record response =
  status_code :: nat
  json_body :: "py_exc + pyval"

datatype get_result = GetRaises py_exc | GetReturns response

record network =
  replies :: "get_result list"
  redirects :: "string list list"
  sent :: "(string \<times> nat) list"

definition requests_get :: "string \<Rightarrow> nat \<Rightarrow> network \<Rightarrow> get_result \<times> network" where
  "requests_get url timeout net =
     (let hops = (case redirects net of [] \<Rightarrow> [] | h # hs \<Rightarrow> h);
          result = (case replies net of [] \<Rightarrow> GetRaises ConnectionError | r # rs \<Rightarrow> r)
      in (result,
          net\<lparr>replies := tl (replies net), redirects := tl (redirects net),
              sent := sent net @ (url, timeout) # map (\<lambda>u. (u, timeout)) hops\<rparr>))"

text \<open>\<^verbatim>\<open>response.raise_for_status()\<close> raises \<^verbatim>\<open>HTTPError\<close> for the codes 400 to 599.\<close>

definition raise_for_status :: "response \<Rightarrow> py_exc option" where
  "raise_for_status r =
     (if 400 \<le> status_code r \<and> status_code r < 600 then Some (HTTPError (status_code r))
      else None)"

text \<open>
  \<^verbatim>\<open>fetch_data\<close> (lines 89 to 102). The body of the \<^verbatim>\<open>try\<close> is \<open>fetch_attempt\<close>; the first
  handler takes every \<^verbatim>\<open>RequestException\<close>, the second every other exception, and both show
  an error and stop the script.
\<close>

definition fetch_attempt :: "get_result \<Rightarrow> py_exc + pyval" where
  "fetch_attempt result =
     (case result of
        GetRaises e \<Rightarrow> Inl e
      | GetReturns response \<Rightarrow>
          (case raise_for_status response of
             Some e \<Rightarrow> Inl e
           | None \<Rightarrow> json_body response))"

definition fetch_data :: "string \<Rightarrow> network \<Rightarrow> pyval outcome \<times> network" where
  "fetch_data url net =
     (case requests_get url 10 net of
        (result, net') \<Rightarrow>
          (case fetch_attempt result of
             Inr data \<Rightarrow> (Returned data, net')
           | Inl e \<Rightarrow>
               (if is_request_exception e then (Halted (ConnectionErrorMsg e), net')
                else (Halted (UnexpectedErrorMsg e), net'))))"

section \<open>Properties of the formatters\<close>

subsection \<open>Evaluation of the library model on the sample timestamps\<close>

lemma str_replace_noon:
  "str_replace (CHR ''Z'') ''+00:00'' ''2024-01-01T12:30:00Z'' = ''2024-01-01T12:30:00+00:00''"
  by (simp add: str_replace_def)

lemma str_replace_midnight:
  "str_replace (CHR ''Z'') ''+00:00'' ''2024-01-01T00:00:00Z'' = ''2024-01-01T00:00:00+00:00''"
  by (simp add: str_replace_def)

lemma parse_date_new_year: "parse_isoformat_date ''2024-01-01'' = Some (2024, 1, 1)"
  by (simp add: parse_isoformat_date_def parse_digits_def digit_val_def)

lemma parse_time_noon: "parse_isoformat_time ''12:30:00+00:00'' = Some (12, 30, 0, 0, Some 0)"
  by (simp add: parse_isoformat_time_def parse_hh_mm_ss_ff_def time_field_def is_sign_def
      parse_digits_def digit_val_def)

lemma parse_time_noon_naive: "parse_isoformat_time ''12:30:00'' = Some (12, 30, 0, 0, None)"
  by (simp add: parse_isoformat_time_def parse_hh_mm_ss_ff_def time_field_def is_sign_def
      parse_digits_def digit_val_def)

lemma parse_time_midnight: "parse_isoformat_time ''00:00:00+00:00'' = Some (0, 0, 0, 0, Some 0)"
  by (simp add: parse_isoformat_time_def parse_hh_mm_ss_ff_def time_field_def is_sign_def
      parse_digits_def digit_val_def)

lemma new_datetime_new_year:
  "h < 24 \<Longrightarrow> mi < 60 \<Longrightarrow>
   new_datetime 2024 1 1 h mi 0 0 tz =
     Some \<lparr>year = 2024, month = 1, day = 1, hour = h, minute = mi, second = 0,
            microsecond = 0, utcoffset = tz\<rparr>"
  by (simp add: new_datetime_def days_in_month_def)

lemma fromisoformat_noon:
  "fromisoformat_doc ''2024-01-01T12:30:00+00:00'' =
     Some \<lparr>year = 2024, month = 1, day = 1, hour = 12, minute = 30, second = 0,
            microsecond = 0, utcoffset = Some 0\<rparr>"
  by (simp add: fromisoformat_doc_def separator_length_def parse_date_new_year parse_time_noon
      new_datetime_new_year del: One_nat_def)

lemma fromisoformat_midnight:
  "fromisoformat_doc ''2024-01-01T00:00:00+00:00'' =
     Some \<lparr>year = 2024, month = 1, day = 1, hour = 0, minute = 0, second = 0,
            microsecond = 0, utcoffset = Some 0\<rparr>"
  by (simp add: fromisoformat_doc_def separator_length_def parse_date_new_year
      parse_time_midnight new_datetime_new_year del: One_nat_def)

lemma fromisoformat_other_separator:
  "fromisoformat_doc ''2024-01-01x12:30:00'' =
     Some \<lparr>year = 2024, month = 1, day = 1, hour = 12, minute = 30, second = 0,
            microsecond = 0, utcoffset = None\<rparr>"
  by (simp add: fromisoformat_doc_def separator_length_def parse_date_new_year
      parse_time_noon_naive new_datetime_new_year del: One_nat_def)

lemma zero_pad_samples:
  "zero_pad 2 12 = ''12''" "zero_pad 2 30 = ''30''" "zero_pad 2 1 = ''01''"
  by (simp_all add: zero_pad_def str_nat.simps digit_char_def)

lemma str_nat_2024: "str_nat 2024 = ''2024''"
  by (simp add: str_nat.simps digit_char_def)

lemma strftime_noon:
  "strftime ''%I:%M %p'' \<lparr>year = 2024, month = 1, day = 1, hour = 12, minute = 30, second = 0,
            microsecond = 0, utcoffset = tz\<rparr> = ''12:30 PM''"
  by (simp add: directive_def hour12_def zero_pad_samples del: One_nat_def)

lemma strftime_new_year:
  "strftime ''%B %d, %Y'' \<lparr>year = 2024, month = 1, day = 1, hour = h, minute = mi, second = s,
            microsecond = us, utcoffset = tz\<rparr> = ''January 01, 2024''"
  by (simp add: directive_def month_names_def zero_pad_samples str_nat_2024 del: One_nat_def)

text \<open>
  The date of an APOD record is a date without a time, such as \<^verbatim>\<open>2024-01-01\<close>. The
  documented grammar accepts it, and the date formatter prints it.
\<close>

lemma fromisoformat_date_only:
  "fromisoformat_doc ''2024-01-01'' =
     Some \<lparr>year = 2024, month = 1, day = 1, hour = 0, minute = 0, second = 0,
            microsecond = 0, utcoffset = None\<rparr>"
  by (simp add: fromisoformat_doc_def parse_date_new_year new_datetime_new_year del: One_nat_def)

lemma apod_date_formatted:
  "format_date fromisoformat_doc (PStr ''2024-01-01'') = Inr ''January 01, 2024''"
  unfolding format_date_def
  by (simp add: str_replace_def fromisoformat_date_only strftime_new_year
      del: strftime.simps One_nat_def)

subsection \<open>Strings that the documented grammar rejects\<close>

lemma str_replace_Nil: "str_replace old new [] = []"
  by (simp add: str_replace_def)

lemma str_replace_Cons:
  "str_replace old new (c # cs) =
     (if c = old then new @ str_replace old new cs else c # str_replace old new cs)"
  by (simp add: str_replace_def)

text \<open>
  Replacing \<^verbatim>\<open>Z\<close> by \<^verbatim>\<open>+00:00\<close> cannot make digits at the front of a string: the front of
  the new string is the front of the old one up to the first \<^verbatim>\<open>Z\<close>, and then a plus sign.
\<close>

lemma digits_before_replace:
  "n \<le> length (str_replace (CHR ''Z'') ''+00:00'' s) \<Longrightarrow>
   list_all is_digit (take n (str_replace (CHR ''Z'') ''+00:00'' s)) \<Longrightarrow>
   n \<le> length s \<and> list_all is_digit (take n s)"
proof (induction s arbitrary: n)
  case Nil
  then show ?case by (simp add: str_replace_Nil)
next
  case (Cons c cs)
  show ?case
  proof (cases n)
    case 0
    then show ?thesis by simp
  next
    case (Suc m)
    show ?thesis
    proof (cases "c = CHR ''Z''")
      case True
      with Cons.prems Suc show ?thesis
        by (simp add: str_replace_Cons is_digit_def digit_val_def)
    next
      case False
      with Cons.prems Suc
      have "m \<le> length (str_replace (CHR ''Z'') ''+00:00'' cs)"
        and "list_all is_digit (take m (str_replace (CHR ''Z'') ''+00:00'' cs))"
        and "is_digit c"
        by (simp_all add: str_replace_Cons)
      with Cons.IH [of m] Suc show ?thesis by simp
    qed
  qed
qed

lemma starts_with_year_replace:
  "starts_with_year (str_replace (CHR ''Z'') ''+00:00'' s) \<Longrightarrow> starts_with_year s"
  unfolding starts_with_year_def using digits_before_replace [of 4 s] by blast

lemma parse_digits_acc_digits:
  "parse_digits_acc acc cs = Some n \<Longrightarrow> list_all is_digit cs"
  by (induction cs arbitrary: acc) (auto simp add: is_digit_def split: option.splits)

lemma parse_isoformat_date_year:
  assumes "parse_isoformat_date (take 10 t) = Some ymd"
  shows "starts_with_year t"
proof -
  from assms have len: "length (take 10 t) = 10"
    and year: "parse_digits (take 4 (take 10 t)) \<noteq> None"
    by (auto simp add: parse_isoformat_date_def split: if_splits option.splits)
  from len have "4 \<le> length t" by simp
  moreover from year have "list_all is_digit (take 4 t)"
    by (auto simp add: parse_digits_def min_def dest: parse_digits_acc_digits split: if_splits)
  ultimately show ?thesis by (simp add: starts_with_year_def)
qed

lemma fromisoformat_doc_year: "fromisoformat_doc t = Some dt \<Longrightarrow> starts_with_year t"
  by (auto simp add: fromisoformat_doc_def dest: parse_isoformat_date_year split: option.splits)

lemma fromisoformat_doc_rejects:
  "\<not> starts_with_year s \<Longrightarrow> fromisoformat_doc (str_replace (CHR ''Z'') ''+00:00'' s) = None"
  using fromisoformat_doc_year starts_with_year_replace by (cases "fromisoformat_doc (str_replace (CHR ''Z'') ''+00:00'' s)") auto

subsection \<open>Outside the strings\<close>

text \<open>
  The formatters return on \<^verbatim>\<open>None\<close> and on every string, whatever the parser does with it.
  A true value that is not a string makes them raise \<^verbatim>\<open>AttributeError\<close>.
\<close>

lemma format_time_string: "\<exists>r. format_time fromisoformat (PStr s) = Inr r"
  by (simp add: format_time_def split: option.splits)

lemma format_date_string: "\<exists>r. format_date fromisoformat (PStr s) = Inr r"
  by (simp add: format_date_def split: option.splits)

lemma formatters_return_on_absence_and_strings:
  "(\<exists>r. format_time fromisoformat PNone = Inr r) \<and>
   (\<exists>r. format_time fromisoformat (PStr s) = Inr r) \<and>
   (\<exists>r. format_date fromisoformat PNone = Inr r) \<and>
   (\<exists>r. format_date fromisoformat (PStr s) = Inr r)"
  using format_time_string [of fromisoformat s] format_date_string [of fromisoformat s]
  by (simp add: format_time_def format_date_def)

lemma format_time_not_a_string:
  "truthy v \<Longrightarrow> \<forall>s. v \<noteq> PStr s \<Longrightarrow> format_time fromisoformat v = Inl AttributeError"
  by (cases v) (simp_all add: format_time_def)

lemma format_date_not_a_string:
  "truthy v \<Longrightarrow> \<forall>s. v \<noteq> PStr s \<Longrightarrow> format_date fromisoformat v = Inl AttributeError"
  by (cases v) (simp_all add: format_date_def)

text \<open>
  Claim C3. The claim is that every normalizer returns on every input and never raises. The
  metric text and the media chain do, and so do the two formatters on \<^verbatim>\<open>None\<close> and on
  strings. But the program hands the formatters whatever the payload holds under \<^verbatim>\<open>time\<close>
  and \<^verbatim>\<open>date\<close>, and on a number other than zero they call \<^verbatim>\<open>replace\<close> on it: the
  \<^verbatim>\<open>AttributeError\<close> is not a \<^verbatim>\<open>ValueError\<close>, so the handler does not catch it and it leaves the
  formatter and the render pass. This holds for every parser.
\<close>

theorem formatters_raise_on_numbers:
  "format_time fromisoformat (PInt 5) = Inl AttributeError \<and>
   format_date fromisoformat (PInt 20240101) = Inl AttributeError \<and>
   local_time fromisoformat (PDict [(''time'', PInt 5)]) = Inl AttributeError \<and>
   date_caption fromisoformat (PDict [(''date'', PInt 20240101)]) = Inl AttributeError"
  by (simp add: format_time_def format_date_def local_time_def date_caption_def py_get_def
      py_get_default_def)

text \<open>
  The program reads the timestamps with \<^verbatim>\<open>get\<close>, so a missing key reaches the formatters
  as \<^verbatim>\<open>None\<close>, like a null.
\<close>

lemma local_time_dict:
  "local_time fromisoformat (PDict kvs) =
     format_time fromisoformat (case map_of kvs ''time'' of Some v \<Rightarrow> v | None \<Rightarrow> PNone)"
  by (simp add: local_time_def py_get_def py_get_default_def split: option.splits)

lemma date_caption_missing:
  "map_of kvs ''date'' = None \<Longrightarrow>
   date_caption fromisoformat (PDict kvs) = Inr ''**Date:** N/A''"
  by (simp add: date_caption_def py_get_def py_get_default_def format_date_def)

subsection \<open>Placeholders\<close>

text \<open>
  Claim C9. The empty string is treated as absence by both formatters: the result is the
  placeholder \<^verbatim>\<open>N/A\<close>, whatever the parser, and so never \<^verbatim>\<open>Time N/A\<close> or \<^verbatim>\<open>Date N/A\<close>.
\<close>

theorem empty_string_is_absence:
  "format_time fromisoformat (PStr '''') = Inr ''N/A'' \<and>
   format_date fromisoformat (PStr '''') = Inr ''N/A''"
  by (simp add: format_time_def format_date_def)

text \<open>
  Claim C2, as amended. On \<^verbatim>\<open>None\<close> (a null or missing timestamp) both formatters return
  \<^verbatim>\<open>N/A\<close>. The placeholders \<^verbatim>\<open>Time N/A\<close> and \<^verbatim>\<open>Date N/A\<close> are returned for the non-empty
  strings that \<^verbatim>\<open>datetime.fromisoformat\<close> rejects once every \<^verbatim>\<open>Z\<close> is replaced by \<^verbatim>\<open>+00:00\<close>,
  whatever the parser; with the documented grammar these include every non-empty string
  that does not begin with the four digits of a year.
\<close>

theorem placeholders_for_absent_and_unparsable:
  "format_time fromisoformat PNone = Inr ''N/A'' \<and>
   format_date fromisoformat PNone = Inr ''N/A'' \<and>
   (s \<noteq> [] \<and> fromisoformat (str_replace (CHR ''Z'') ''+00:00'' s) = None \<longrightarrow>
      format_time fromisoformat (PStr s) = Inr ''Time N/A'' \<and>
      format_date fromisoformat (PStr s) = Inr ''Date N/A'') \<and>
   (s \<noteq> [] \<and> \<not> starts_with_year s \<longrightarrow>
      format_time fromisoformat_doc (PStr s) = Inr ''Time N/A'' \<and>
      format_date fromisoformat_doc (PStr s) = Inr ''Date N/A'')"
  by (simp add: format_time_def format_date_def fromisoformat_doc_rejects)

text \<open>The string \<^verbatim>\<open>tomorrow\<close> is not empty and does not begin with a year.\<close>

theorem placeholders_witness:
  "''tomorrow'' \<noteq> [] \<and>
   \<not> starts_with_year ''tomorrow'' \<and>
   fromisoformat_doc (str_replace (CHR ''Z'') ''+00:00'' ''tomorrow'') = None \<and>
   format_time fromisoformat_doc (PStr ''tomorrow'') = Inr ''Time N/A'' \<and>
   format_date fromisoformat_doc (PStr ''tomorrow'') = Inr ''Date N/A''"
proof -
  have no_year: "\<not> starts_with_year ''tomorrow''"
    by (simp add: starts_with_year_def is_digit_def digit_val_def)
  then have "fromisoformat_doc (str_replace (CHR ''Z'') ''+00:00'' ''tomorrow'') = None"
    by (rule fromisoformat_doc_rejects)
  with no_year placeholders_for_absent_and_unparsable [of fromisoformat_doc "''tomorrow''"]
  show ?thesis by simp
qed

text \<open>
  Against claim C2 as stated: \<^verbatim>\<open>2024-01-01x12:30:00\<close> is not an ISO 8601 timestamp, since the
  letter x stands where the standard has T, and it is not empty. The parser accepts any
  character in that place, so the string is formatted and no placeholder is returned.
\<close>

theorem non_iso_string_is_formatted:
  "format_time fromisoformat_doc (PStr ''2024-01-01x12:30:00'') = Inr ''12:30 PM'' \<and>
   format_date fromisoformat_doc (PStr ''2024-01-01x12:30:00'') = Inr ''January 01, 2024''"
proof -
  have same: "str_replace (CHR ''Z'') ''+00:00'' ''2024-01-01x12:30:00'' = ''2024-01-01x12:30:00''"
    by (simp add: str_replace_def)
  have "format_time fromisoformat_doc (PStr ''2024-01-01x12:30:00'') = Inr ''12:30 PM''"
    unfolding format_time_def
    by (simp add: same fromisoformat_other_separator strftime_noon
        del: strftime.simps One_nat_def)
  moreover
  have "format_date fromisoformat_doc (PStr ''2024-01-01x12:30:00'') = Inr ''January 01, 2024''"
    unfolding format_date_def
    by (simp add: same fromisoformat_other_separator strftime_new_year
        del: strftime.simps One_nat_def)
  ultimately show ?thesis by blast
qed

subsection \<open>The sample timestamps\<close>

text \<open>
  Claim C7. With the documented grammar of \<^verbatim>\<open>datetime.fromisoformat\<close> and the C locale, the
  time formatter turns \<^verbatim>\<open>2024-01-01T12:30:00Z\<close> into \<^verbatim>\<open>12:30 PM\<close> and the date formatter
  turns \<^verbatim>\<open>2024-01-01T00:00:00Z\<close> into \<^verbatim>\<open>January 01, 2024\<close>; the trailing \<^verbatim>\<open>Z\<close> is read as
  the UTC offset zero.
\<close>

theorem sample_timestamps_formatted:
  "format_time fromisoformat_doc (PStr ''2024-01-01T12:30:00Z'') = Inr ''12:30 PM'' \<and>
   format_date fromisoformat_doc (PStr ''2024-01-01T00:00:00Z'') = Inr ''January 01, 2024'' \<and>
   map_option utcoffset
     (fromisoformat_doc (str_replace (CHR ''Z'') ''+00:00'' ''2024-01-01T12:30:00Z'')) =
     Some (Some 0)"
proof -
  have "format_time fromisoformat_doc (PStr ''2024-01-01T12:30:00Z'') = Inr ''12:30 PM''"
    unfolding format_time_def
    by (simp add: str_replace_noon fromisoformat_noon strftime_noon del: strftime.simps One_nat_def)
  moreover
  have "format_date fromisoformat_doc (PStr ''2024-01-01T00:00:00Z'') = Inr ''January 01, 2024''"
    unfolding format_date_def
    by (simp add: str_replace_midnight fromisoformat_midnight strftime_new_year
        del: strftime.simps One_nat_def)
  moreover
  have "map_option utcoffset
     (fromisoformat_doc (str_replace (CHR ''Z'') ''+00:00'' ''2024-01-01T12:30:00Z'')) =
     Some (Some 0)"
    by (simp add: str_replace_noon fromisoformat_noon)
  ultimately show ?thesis by blast
qed

section \<open>Properties of the display values\<close>

lemma str_int_zero: "str_int 0 = ''0''"
  by (simp add: str_int_def str_nat.simps digit_char_def)

lemma py_get_dict:
  "py_get (PDict kvs) key = Inr (case map_of kvs key of Some v \<Rightarrow> v | None \<Rightarrow> PNone)"
  by (simp add: py_get_def py_get_default_def split: option.splits)

lemma py_get_is_dict: "py_get d key = Inr v \<Longrightarrow> \<exists>kvs. d = PDict kvs"
  by (cases d) (simp_all add: py_get_def py_get_default_def)

text \<open>
  Claim C1. For every unit suffix the metric text of \<^verbatim>\<open>None\<close> is the placeholder \<^verbatim>\<open>--\<close>, and
  that of an integer or a float is the number's text followed by the suffix. Zero is a
  value like any other: its text is \<^verbatim>\<open>0\<close> and the suffix. At the suffix of the temperature,
  0 gives \<^verbatim>\<open>0\<close> and 21.5 gives \<^verbatim>\<open>21.5\<close>, each followed by the degree sign and \<^verbatim>\<open>C\<close>. The two
  metrics of the program apply this to the value under \<^verbatim>\<open>temperature\<close> and \<^verbatim>\<open>windspeed\<close>,
  where a missing key counts as \<^verbatim>\<open>None\<close>.
\<close>

theorem unit_display_null_and_numbers:
  "unit_display cr suffix PNone = ''--'' \<and>
   unit_display cr suffix (PInt i) = str_int i @ suffix \<and>
   unit_display cr suffix (PFloat r) = r @ suffix \<and>
   unit_display cr suffix (PInt 0) = CHR ''0'' # suffix \<and>
   unit_display cr deg_C (PInt 0) = [CHR ''0'', CHR 0xC2, CHR 0xB0, CHR ''C''] \<and>
   unit_display cr deg_C (PFloat ''21.5'') =
     [CHR ''2'', CHR ''1'', CHR ''.'', CHR ''5'', CHR 0xC2, CHR 0xB0, CHR ''C''] \<and>
   temp_display cr (PDict kvs) =
     Inr (unit_display cr deg_C
            (case map_of kvs ''temperature'' of Some v \<Rightarrow> v | None \<Rightarrow> PNone)) \<and>
   wind_display cr (PDict kvs) =
     Inr (unit_display cr km_h
            (case map_of kvs ''windspeed'' of Some v \<Rightarrow> v | None \<Rightarrow> PNone))"
  by (simp add: unit_display_def fstr_def str_int_zero deg_C_def temp_display_def
      wind_display_def py_get_dict)

text \<open>
  Claim C8. The program shows the media by its raw type, in exactly one of three ways. With
  a media URL that is true, the type \<^verbatim>\<open>image\<close> goes to the image widget (with the URL and the
  title as caption), the type \<^verbatim>\<open>video\<close> goes to the video widget, and every other value of
  the type, a missing one included, gets the warning about an unknown media type: no
  widget plays or shows it. Without a true URL the warning about the URL is shown, whatever
  the type. The kind of a media type is image exactly for the string
  \<^verbatim>\<open>image\<close>, video exactly for \<^verbatim>\<open>video\<close>, and unrecognized otherwise; an unrecognized type
  is shown as a warning whatever the URL is.
\<close>

theorem media_classification:
  "(py_get apod ''media_type'' = Inr m \<and> py_get apod ''url'' = Inr u \<and> truthy u \<and>
      py_get apod ''title'' = Inr t \<and> m = PStr ''image'' \<longrightarrow>
      show_media apod = Inr (StImage u t)) \<and>
   (py_get apod ''media_type'' = Inr m \<and> py_get apod ''url'' = Inr u \<and> truthy u \<and>
      m = PStr ''video'' \<longrightarrow>
      show_media apod = Inr (StVideo u)) \<and>
   (py_get apod ''media_type'' = Inr m \<and> py_get apod ''url'' = Inr u \<and> truthy u \<and>
      m \<noteq> PStr ''image'' \<and> m \<noteq> PStr ''video'' \<longrightarrow>
      show_media apod = Inr (StWarning ''Unknown media type.'')) \<and>
   (py_get apod ''media_type'' = Inr m \<and> py_get apod ''url'' = Inr u \<and> \<not> truthy u \<longrightarrow>
      show_media apod = Inr (StWarning ''APOD media URL not available.'')) \<and>
   (classify_media m = Image) = (m = PStr ''image'') \<and>
   (classify_media m = Video) = (m = PStr ''video'') \<and>
   (classify_media m = Unrecognized) = (m \<noteq> PStr ''image'' \<and> m \<noteq> PStr ''video'') \<and>
   classify_media PNone = Unrecognized \<and>
   (py_get apod ''media_type'' = Inr m \<and> classify_media m = Unrecognized \<longrightarrow>
      (\<exists>text. show_media apod = Inr (StWarning text)))"
proof -
  have kinds:
    "(classify_media m = Image) = (m = PStr ''image'')"
    "(classify_media m = Video) = (m = PStr ''video'')"
    "(classify_media m = Unrecognized) = (m \<noteq> PStr ''image'' \<and> m \<noteq> PStr ''video'')"
    "classify_media PNone = Unrecognized"
    by (auto simp add: classify_media_def)
  have image: "show_media apod = Inr (StImage u t)"
    if "py_get apod ''media_type'' = Inr m" "py_get apod ''url'' = Inr u" "truthy u"
      "py_get apod ''title'' = Inr t" "m = PStr ''image''"
    using that by (simp add: show_media_def classify_media_def)
  have video: "show_media apod = Inr (StVideo u)"
    if "py_get apod ''media_type'' = Inr m" "py_get apod ''url'' = Inr u" "truthy u"
      "m = PStr ''video''"
    using that by (simp add: show_media_def classify_media_def)
  have other: "show_media apod = Inr (StWarning ''Unknown media type.'')"
    if "py_get apod ''media_type'' = Inr m" "py_get apod ''url'' = Inr u" "truthy u"
      "m \<noteq> PStr ''image''" "m \<noteq> PStr ''video''"
    using that by (simp add: show_media_def classify_media_def)
  have no_url: "show_media apod = Inr (StWarning ''APOD media URL not available.'')"
    if "py_get apod ''media_type'' = Inr m" "py_get apod ''url'' = Inr u" "\<not> truthy u"
    using that by (simp add: show_media_def)
  have warned: "\<exists>text. show_media apod = Inr (StWarning text)"
    if get: "py_get apod ''media_type'' = Inr m" and unrec: "classify_media m = Unrecognized"
  proof -
    from get obtain kvs where apod: "apod = PDict kvs"
      using py_get_is_dict by blast
    from get unrec show ?thesis
      unfolding apod show_media_def by (simp add: py_get_dict)
  qed
  show ?thesis
    by (intro conjI impI) (use kinds image video other no_url warned in \<open>simp_all\<close>)
qed

text \<open>
  Three records with the same URL and title: an image, a video, and an audio clip, whose
  type is unrecognized; and an image without a URL.
\<close>

theorem media_classification_witness:
  "truthy (PStr ''https://example.org/m'') \<and>
   show_media (PDict [(''media_type'', PStr ''image''), (''url'', PStr ''https://example.org/m''),
                      (''title'', PStr ''Orion'')])
     = Inr (StImage (PStr ''https://example.org/m'') (PStr ''Orion'')) \<and>
   show_media (PDict [(''media_type'', PStr ''video''), (''url'', PStr ''https://example.org/m''),
                      (''title'', PStr ''Orion'')])
     = Inr (StVideo (PStr ''https://example.org/m'')) \<and>
   PStr ''audio'' \<noteq> PStr ''image'' \<and> PStr ''audio'' \<noteq> PStr ''video'' \<and>
   classify_media (PStr ''audio'') = Unrecognized \<and>
   show_media (PDict [(''media_type'', PStr ''audio''), (''url'', PStr ''https://example.org/m''),
                      (''title'', PStr ''Orion'')])
     = Inr (StWarning ''Unknown media type.'') \<and>
   \<not> truthy PNone \<and>
   show_media (PDict [(''media_type'', PStr ''image''), (''title'', PStr ''Orion'')])
     = Inr (StWarning ''APOD media URL not available.'')"
  using
    media_classification [of
      "PDict [(''media_type'', PStr ''image''), (''title'', PStr ''Orion'')]"
      "PStr ''image''" PNone "PStr ''Orion''"]
    media_classification [of
      "PDict [(''media_type'', PStr ''image''), (''url'', PStr ''https://example.org/m''),
              (''title'', PStr ''Orion'')]"
      "PStr ''image''" "PStr ''https://example.org/m''" "PStr ''Orion''"]
    media_classification [of
      "PDict [(''media_type'', PStr ''video''), (''url'', PStr ''https://example.org/m''),
              (''title'', PStr ''Orion'')]"
      "PStr ''video''" "PStr ''https://example.org/m''" "PStr ''Orion''"]
    media_classification [of
      "PDict [(''media_type'', PStr ''audio''), (''url'', PStr ''https://example.org/m''),
              (''title'', PStr ''Orion'')]"
      "PStr ''audio''" "PStr ''https://example.org/m''" "PStr ''Orion''"]
  by (simp add: py_get_dict)

section \<open>Properties of the validation\<close>

lemma map_of_Some_key: "map_of kvs k = Some v \<Longrightarrow> k \<in> fst ` set kvs"
  by (metis map_of_eq_None_iff option.distinct(1))

text \<open>
  On a dict the test is a test of the two keys: the error is shown exactly when one of them
  is missing (an empty dict misses both).
\<close>

lemma validate_structure_dict:
  "(validate_structure (PDict kvs) = Halted DataStructureInvalidMsg) =
     (map_of kvs ''apod'' = None \<or> map_of kvs ''weather'' = None)"
proof (cases "map_of kvs ''apod''")
  case None
  then have "''apod'' \<notin> fst ` set kvs" by (simp add: map_of_eq_None_iff)
  then show ?thesis using None
    by (cases kvs) (auto simp add: validate_structure_def py_contains_def)
next
  case (Some a)
  then have in_apod: "''apod'' \<in> fst ` set kvs" and ne: "kvs \<noteq> []"
    by (auto dest: map_of_Some_key)
  show ?thesis
  proof (cases "map_of kvs ''weather''")
    case None
    then have "''weather'' \<notin> fst ` set kvs" by (simp add: map_of_eq_None_iff)
    with in_apod ne None show ?thesis
      by (simp add: validate_structure_def py_contains_def)
  next
    case (Some w)
    then have "''weather'' \<in> fst ` set kvs"
      by (rule map_of_Some_key)
    with in_apod ne Some \<open>map_of kvs ''apod'' = Some a\<close> show ?thesis
      by (simp add: validate_structure_def py_contains_def py_getitem_def)
  qed
qed

lemma rejected_payloads:
  "validate_structure (PDict []) = Halted DataStructureInvalidMsg"
  "validate_structure (PDict [(''apod'', PDict [])]) = Halted DataStructureInvalidMsg"
  "validate_structure PNone = Halted DataStructureInvalidMsg"
  "validate_structure (PList []) = Halted DataStructureInvalidMsg"
  by (simp_all add: validate_structure_def py_contains_def)

text \<open>
  Claim C4. The claim is that the validation error is shown for every parsed body that
  lacks one of the keys \<^verbatim>\<open>apod\<close> and \<^verbatim>\<open>weather\<close>. The program does so for dicts, but not
  for every parsed body: the list of the two strings and a string that contains both words
  pass the membership tests and the subscription \<^verbatim>\<open>data['apod']\<close> then raises \<^verbatim>\<open>TypeError\<close>;
  on a number other than zero, and on \<^verbatim>\<open>true\<close>, the membership test itself raises
  \<^verbatim>\<open>TypeError\<close>. In none of these cases is the validation error shown.
\<close>

theorem non_object_payloads_escape_the_check:
  "validate_structure (PList [PStr ''apod'', PStr ''weather'']) = Raised TypeError \<and>
   validate_structure (PStr ''apod weather'') = Raised TypeError \<and>
   validate_structure (PInt 5) = Raised TypeError \<and>
   validate_structure (PBool True) = Raised TypeError"
  by (simp add: validate_structure_def py_contains_def py_getitem_def)

text \<open>
  Claim C10. The structural check looks at the keys only: a dict that has both keys passes,
  whatever the two values are, and the values are handed on as they are.
\<close>

theorem both_keys_suffice:
  "map_of kvs ''apod'' = Some a \<and> map_of kvs ''weather'' = Some w \<longrightarrow>
     validate_structure (PDict kvs) = Returned (a, w)"
proof
  assume keys: "map_of kvs ''apod'' = Some a \<and> map_of kvs ''weather'' = Some w"
  then have "''apod'' \<in> fst ` set kvs" "''weather'' \<in> fst ` set kvs" "kvs \<noteq> []"
    by (auto dest: map_of_Some_key)
  with keys show "validate_structure (PDict kvs) = Returned (a, w)"
    by (simp add: validate_structure_def py_contains_def py_getitem_def)
qed

text \<open>A payload whose \<^verbatim>\<open>apod\<close> is a number and whose \<^verbatim>\<open>weather\<close> is a string passes.\<close>

theorem both_keys_suffice_witness:
  "map_of [(''apod'', PInt 7), (''weather'', PStr ''sunny'')] ''apod'' = Some (PInt 7) \<and>
   map_of [(''apod'', PInt 7), (''weather'', PStr ''sunny'')] ''weather'' = Some (PStr ''sunny'') \<and>
   validate_structure (PDict [(''apod'', PInt 7), (''weather'', PStr ''sunny'')]) =
     Returned (PInt 7, PStr ''sunny'')"
  using both_keys_suffice [of "[(''apod'', PInt 7), (''weather'', PStr ''sunny'')]"
      "PInt 7" "PStr ''sunny''"]
  by simp

section \<open>Properties of the fetch\<close>

lemma fetch_data_sent:
  "sent (snd (fetch_data url net)) =
     sent net @ (url, 10) # map (\<lambda>u. (u, 10)) (case redirects net of [] \<Rightarrow> [] | h # hs \<Rightarrow> h)"
  by (simp add: fetch_data_def requests_get_def Let_def split: sum.splits)

lemma fetch_data_replies:
  "replies (snd (fetch_data url net)) = tl (replies net) \<and>
   redirects (snd (fetch_data url net)) = tl (redirects net)"
  by (simp add: fetch_data_def requests_get_def Let_def split: sum.splits)

lemma fetch_data_outcome:
  "replies net = result # rest \<Longrightarrow>
   fst (fetch_data url net) =
     (case fetch_attempt result of
        Inr data \<Rightarrow> Returned data
      | Inl e \<Rightarrow> Halted (if is_request_exception e then ConnectionErrorMsg e
                           else UnexpectedErrorMsg e))"
  by (simp add: fetch_data_def requests_get_def Let_def split: sum.splits)

text \<open>
  Claim C6, as amended. \<^verbatim>\<open>fetch_data\<close> makes exactly one call of \<^verbatim>\<open>requests.get\<close>, with the
  given URL and a timeout of 10 seconds, and none after it, whatever the result: it takes
  one result from the network, and what goes on the wire is one GET request to the URL and
  one to each address that the library is redirected to in that call, all with that
  timeout. When the call raises a \<^verbatim>\<open>RequestException\<close> (a connection failure, a timeout)
  the connection error is shown with that exception and the pass stops; so it is for a
  final response with a status from 400 to 599, with the \<^verbatim>\<open>HTTPError\<close> of that status. For a
  final response with any other status, whose body is valid JSON, the parsed document is
  returned.
\<close>

theorem fetch_data_contract:
  "replies (snd (fetch_data url net)) = tl (replies net) \<and>
   redirects (snd (fetch_data url net)) = tl (redirects net) \<and>
   sent (snd (fetch_data url net)) =
     sent net @ (url, 10) # map (\<lambda>u. (u, 10)) (case redirects net of [] \<Rightarrow> [] | h # hs \<Rightarrow> h) \<and>
   (replies net = GetRaises e # rest \<and> is_request_exception e \<longrightarrow>
      fst (fetch_data url net) = Halted (ConnectionErrorMsg e)) \<and>
   (replies net = GetReturns r # rest \<and> 400 \<le> status_code r \<and> status_code r < 600 \<longrightarrow>
      fst (fetch_data url net) = Halted (ConnectionErrorMsg (HTTPError (status_code r)))) \<and>
   (replies net = GetReturns r # rest \<and> \<not> (400 \<le> status_code r \<and> status_code r < 600)
      \<and> json_body r = Inr data \<longrightarrow>
      fst (fetch_data url net) = Returned data)"
proof -
  have "fst (fetch_data url net) = Halted (ConnectionErrorMsg e)"
    if "replies net = GetRaises e # rest" "is_request_exception e"
    using that by (simp add: fetch_data_outcome fetch_attempt_def)
  moreover
  have "fst (fetch_data url net) = Halted (ConnectionErrorMsg (HTTPError (status_code r)))"
    if "replies net = GetReturns r # rest" "400 \<le> status_code r" "status_code r < 600"
    using that by (simp add: fetch_data_outcome fetch_attempt_def raise_for_status_def)
  moreover
  have "fst (fetch_data url net) = Returned data"
    if "replies net = GetReturns r # rest" "\<not> (400 \<le> status_code r \<and> status_code r < 600)"
      "json_body r = Inr data"
    using that by (simp add: fetch_data_outcome fetch_attempt_def raise_for_status_def)
  ultimately show ?thesis
    using fetch_data_sent [of url net] fetch_data_replies [of url net] by blast
qed

text \<open>
  A timeout, a response with status 404, and a response with status 200 and an empty
  object that is reached without a redirect: one GET request is sent.
\<close>

theorem fetch_data_contract_witness:
  "is_request_exception Timeout \<and>
   400 \<le> status_code \<lparr>status_code = 404, json_body = Inr PNone\<rparr> \<and>
   status_code \<lparr>status_code = 404, json_body = Inr PNone\<rparr> < 600 \<and>
   \<not> (400 \<le> status_code \<lparr>status_code = 200, json_body = Inr (PDict [])\<rparr> \<and>
      status_code \<lparr>status_code = 200, json_body = Inr (PDict [])\<rparr> < 600) \<and>
   fst (fetch_data ''https://example.org/hook''
          \<lparr>replies = [GetRaises Timeout], redirects = [], sent = []\<rparr>)
     = Halted (ConnectionErrorMsg Timeout) \<and>
   fst (fetch_data ''https://example.org/hook''
          \<lparr>replies = [GetReturns \<lparr>status_code = 404, json_body = Inr PNone\<rparr>],
            redirects = [], sent = []\<rparr>)
     = Halted (ConnectionErrorMsg (HTTPError 404)) \<and>
   fst (fetch_data ''https://example.org/hook''
          \<lparr>replies = [GetReturns \<lparr>status_code = 200, json_body = Inr (PDict [])\<rparr>],
            redirects = [], sent = []\<rparr>)
     = Returned (PDict []) \<and>
   sent (snd (fetch_data ''https://example.org/hook''
          \<lparr>replies = [GetReturns \<lparr>status_code = 200, json_body = Inr (PDict [])\<rparr>],
            redirects = [], sent = []\<rparr>))
     = [(''https://example.org/hook'', 10)]"
  using
    fetch_data_contract [of "''https://example.org/hook''"
      "\<lparr>replies = [GetRaises Timeout], redirects = [], sent = []\<rparr>" Timeout "[]"]
    fetch_data_contract [of "''https://example.org/hook''"
      "\<lparr>replies = [GetReturns \<lparr>status_code = 404, json_body = Inr PNone\<rparr>],
        redirects = [], sent = []\<rparr>"
      _ _ "\<lparr>status_code = 404, json_body = Inr PNone\<rparr>"]
    fetch_data_contract [of "''https://example.org/hook''"
      "\<lparr>replies = [GetReturns \<lparr>status_code = 200, json_body = Inr (PDict [])\<rparr>],
        redirects = [], sent = []\<rparr>"
      _ _ "\<lparr>status_code = 200, json_body = Inr (PDict [])\<rparr>" "PDict []"]
  by simp

text \<open>
  Against claim C6 as stated, in its three parts. A final response with status 300, which
  is not a 2xx status, is no error for \<^verbatim>\<open>raise_for_status\<close>, and its parsed body is returned
  as data. A response with the 2xx status 204 whose body is not JSON returns nothing: an
  error is shown and the pass stops. And when the server redirects the first request, two
  GET requests are sent in the one fetch.
\<close>

theorem fetch_data_beyond_the_claim:
  "raise_for_status \<lparr>status_code = 300, json_body = Inr (PDict [])\<rparr> = None \<and>
   fst (fetch_data ''https://example.org/hook''
          \<lparr>replies = [GetReturns \<lparr>status_code = 300, json_body = Inr (PDict [])\<rparr>],
            redirects = [], sent = []\<rparr>)
     = Returned (PDict []) \<and>
   fst (fetch_data ''https://example.org/hook''
          \<lparr>replies = [GetReturns \<lparr>status_code = 204, json_body = Inl RequestsJSONDecodeError\<rparr>],
            redirects = [], sent = []\<rparr>)
     = Halted (ConnectionErrorMsg RequestsJSONDecodeError) \<and>
   sent (snd (fetch_data ''https://example.org/hook''
          \<lparr>replies = [GetReturns \<lparr>status_code = 200, json_body = Inr (PDict [])\<rparr>],
            redirects = [[''https://example.org/moved'']], sent = []\<rparr>))
     = [(''https://example.org/hook'', 10), (''https://example.org/moved'', 10)]"
  by (simp add: fetch_data_outcome fetch_data_sent fetch_attempt_def raise_for_status_def)

text \<open>
  Claim C5, as amended. When the reply's status is no error and its body is not valid JSON,
  so that \<^verbatim>\<open>response.json()\<close> raises, \<^verbatim>\<open>fetch_data\<close> returns no data: it shows one error and
  stops the pass. The error is the connection error, the one shown for a failed fetch, when
  the exception is a \<^verbatim>\<open>RequestException\<close>, and the message for unexpected errors otherwise.
\<close>

theorem invalid_json_halts_the_pass:
  "replies net = GetReturns r # rest \<and> \<not> (400 \<le> status_code r \<and> status_code r < 600)
     \<and> json_body r = Inl e \<longrightarrow>
   fst (fetch_data url net) =
     Halted (if is_request_exception e then ConnectionErrorMsg e else UnexpectedErrorMsg e)"
  by (simp add: fetch_data_outcome fetch_attempt_def raise_for_status_def)

text \<open>A reply with status 200 whose body makes an older requests raise \<^verbatim>\<open>ValueError\<close>.\<close>

theorem invalid_json_halts_the_pass_witness:
  "\<not> (400 \<le> status_code \<lparr>status_code = 200, json_body = Inl ValueError\<rparr> \<and>
      status_code \<lparr>status_code = 200, json_body = Inl ValueError\<rparr> < 600) \<and>
   json_body \<lparr>status_code = 200, json_body = Inl ValueError\<rparr> = Inl ValueError \<and>
   \<not> is_request_exception ValueError \<and>
   fst (fetch_data ''https://example.org/hook''
          \<lparr>replies = [GetReturns \<lparr>status_code = 200, json_body = Inl ValueError\<rparr>],
            redirects = [], sent = []\<rparr>)
     = Halted (UnexpectedErrorMsg ValueError)"
  using invalid_json_halts_the_pass [of
      "\<lparr>replies = [GetReturns \<lparr>status_code = 200, json_body = Inl ValueError\<rparr>],
        redirects = [], sent = []\<rparr>"
      "\<lparr>status_code = 200, json_body = Inl ValueError\<rparr>" "[]" ValueError
      "''https://example.org/hook''"]
  by simp

text \<open>
  Against claim C5 as stated: with the exception that requests has raised for an invalid
  body since version 2.27, the failure is shown by the same handler, as the same connection
  error, as a connection that could not be made.
\<close>

theorem invalid_json_reported_as_connection_error:
  "fst (fetch_data ''https://example.org/hook''
          \<lparr>replies = [GetReturns \<lparr>status_code = 200, json_body = Inl RequestsJSONDecodeError\<rparr>],
            redirects = [], sent = []\<rparr>)
     = Halted (ConnectionErrorMsg RequestsJSONDecodeError) \<and>
   fst (fetch_data ''https://example.org/hook''
          \<lparr>replies = [GetRaises ConnectionError], redirects = [], sent = []\<rparr>)
     = Halted (ConnectionErrorMsg ConnectionError)"
  by (simp add: fetch_data_outcome fetch_attempt_def raise_for_status_def)

end
